theory Spec2Isabelle
  imports Main
begin

section \<open>C++ \<open>int\<close> arithmetic\<close>

text \<open>
  Every counter of \<open>GrStrokeGeometry\<close> is a C++ \<open>int\<close> (32 bits on every platform the
  library builds for). The values are kept as HOL integers and the arithmetic the
  header performs is written with the two's-complement wrap-around spelled out:
  \<open>int32 x\<close> is the value a 32-bit register holds after computing \<open>x\<close>. C++ leaves a
  signed overflow undefined; whatever a compiler makes of it, the result is an \<open>int\<close>,
  a value for which \<open>is_int32\<close> holds.
\<close>

definition INT_MAX :: int where
  "INT_MAX = 2147483647"

definition INT_MIN :: int where
  "INT_MIN = - 2147483648"

definition int32 :: "int \<Rightarrow> int" where
  "int32 x = (x + 2147483648) mod 4294967296 - 2147483648"

definition is_int32 :: "int \<Rightarrow> bool" where
  "is_int32 x \<longleftrightarrow> INT_MIN \<le> x \<and> x \<le> INT_MAX"

text \<open>\<open>sizeof(SkPoint)\<close>: two 32-bit floats.\<close>

definition sizeof_SkPoint :: nat where
  "sizeof_SkPoint = 8"

section \<open>The vertex chunk and the buffer target\<close>

text \<open>
  \<open>struct VertexChunk\<close> (lines 35-39). The buffer reference is kept as a handle. The
  struct's default member initialiser gives a new chunk \<open>fVertexCount = 0\<close>.
\<close>

record VertexChunk =
  fVertexBuffer :: nat
  fVertexCount :: int
  fBaseVertex :: int

text \<open>
  \<open>GrMeshDrawOp::Target\<close> is an external collaborator: the class calls it, its code is
  not part of the sources. The header shows two of the calls: the capability query
  \<open>caps().shaderCaps()->maxTessellationSegments()\<close> (line 46) and
  \<open>putBackVertices(vertices, vertexStride)\<close> (line 56). The target is a record of the
  capability value, of the way it answers reservations (\<open>grant t k n\<close> is the buffer
  handle, the base vertex and the granted capacity with which it answers its \<open>k\<close>-th
  reservation when \<open>n\<close> vertices are asked for), and of a log of the calls it received.
\<close>

record Target =
  maxTessellationSegments :: int
  grant :: "nat \<Rightarrow> int \<Rightarrow> nat \<times> int \<times> int"
  reserveLog :: "(int \<times> int) list"
  putBackLog :: "(int \<times> nat) list"

definition putBackVertices :: "int \<Rightarrow> nat \<Rightarrow> Target \<Rightarrow> Target" where
  "putBackVertices vertices vertexStride t =
     t\<lparr>putBackLog := putBackLog t @ [(vertices, vertexStride)]\<rparr>"

text \<open>
  Modelled from the spec: the reservation call of the target is made inside
  \<open>allocVertexChunk\<close>, whose body is not in the sources. Section 6 of the specification:
  \<open>reserve(vertexCount, vertexStride)\<close> returns a buffer handle, a write pointer and a base
  vertex offset, may grant more than requested, and the caller learns the granted
  capacity. The log keeps the requested and the granted vertex count of every call.
\<close>

definition reserve :: "int \<Rightarrow> Target \<Rightarrow> (nat \<times> int \<times> int) \<times> Target" where
  "reserve vertexCount t =
     (let r = grant t (length (reserveLog t)) vertexCount
      in (r, t\<lparr>reserveLog := reserveLog t @ [(vertexCount, snd (snd r))]\<rparr>))"

section \<open>The adapter state\<close>

text \<open>
  The fields of \<open>class GrStrokeGeometry\<close> that the constructor and the destructor read or
  write (lines 101-110 and 126). \<open>fTarget\<close> and \<open>fVertexChunkArray\<close> are raw pointers to
  objects the caller owns; the class has exclusive use of both for its whole lifetime, so
  the pointees are carried in the state and handed back by the destructor. The write
  pointer \<open>fCurrChunkVertexData\<close> is a raw address into GPU memory and is left out, as are
  the floating-point fields of the path being iterated, none of which the constructor
  initialises.
\<close>

record GrStrokeGeometry =
  fMaxTessellationSegments :: int
  fTarget :: Target
  fVertexChunkArray :: "VertexChunk list"
  fCurrChunkVertexCapacity :: int
  fCurrChunkMinVertexAllocCount :: int
  fHasPreviousSegment :: bool

text \<open>
  Modelled from the spec: the body of \<open>allocVertexChunk\<close> (declared at line 63) is not in
  the sources. Section 4.1: the adapter reserves the requested number of vertices from the
  target, "recording capacity and a raw write pointer", and the chunk list is append-only.
  The new chunk starts with \<open>fVertexCount = 0\<close> (line 37).
\<close>

definition allocVertexChunk :: "int \<Rightarrow> GrStrokeGeometry \<Rightarrow> GrStrokeGeometry" where
  "allocVertexChunk minVertexAllocCount g =
     (case reserve minVertexAllocCount (fTarget g) of
        ((buffer, baseVertex, capacity), t) \<Rightarrow>
          g\<lparr>fTarget := t,
            fVertexChunkArray := fVertexChunkArray g @
              [\<lparr>fVertexBuffer = buffer, fVertexCount = 0, fBaseVertex = baseVertex\<rparr>],
            fCurrChunkVertexCapacity := capacity,
            fCurrChunkMinVertexAllocCount := minVertexAllocCount\<rparr>)"

text \<open>
  The constructor (lines 44-51). \<open>kNumVerticesPerPatch\<close> is a constant of
  \<open>GrTessellateStrokeShader\<close>, whose header is not in the sources: it is a parameter. The
  two capacity fields are indeterminate until \<open>allocVertexChunk\<close> assigns them; the model
  starts them at 0.
\<close>

definition GrStrokeGeometry_ctor ::
  "int \<Rightarrow> Target \<Rightarrow> VertexChunk list \<Rightarrow> int \<Rightarrow> GrStrokeGeometry" where
  "GrStrokeGeometry_ctor kNumVerticesPerPatch target vertexChunkArray totalCombinedVerbCnt =
     allocVertexChunk (int32 (int32 (totalCombinedVerbCnt * 3) * kNumVerticesPerPatch))
       \<lparr>fMaxTessellationSegments = maxTessellationSegments target,
        fTarget = target,
        fVertexChunkArray = vertexChunkArray,
        fCurrChunkVertexCapacity = 0,
        fCurrChunkMinVertexAllocCount = 0,
        fHasPreviousSegment = False\<rparr>"

text \<open>
  The destructor (lines 55-58). \<open>back()\<close> of an empty array is out of bounds: \<open>None\<close>.
  Otherwise the target and the chunk array, which outlive the object, are returned.
\<close>

definition GrStrokeGeometry_dtor :: "GrStrokeGeometry \<Rightarrow> (Target \<times> VertexChunk list) option" where
  "GrStrokeGeometry_dtor g =
     (if fVertexChunkArray g = [] then None
      else Some (putBackVertices
                   (int32 (fCurrChunkVertexCapacity g - fVertexCount (last (fVertexChunkArray g))))
                   sizeof_SkPoint (fTarget g),
                 fVertexChunkArray g))"

section \<open>Reserving patches\<close>

text \<open>
  Modelled from the spec: the body of \<open>reservePatch\<close> (declared at line 64) is not in the
  sources. Section 4.1: it "returns a writable pointer for exactly one patch's vertices;
  if the current chunk has no remaining capacity, it finalizes the chunk's vertexCount,
  requests a new chunk from the target sized to at least cover known-remaining demand, and
  returns a slot from the new chunk". Section 2: a new chunk is allocated "(returning
  unused reservation to the target) when capacity is exhausted". Section 3: "each emitted
  primitive consumes exactly one patch's worth of vertices".

  The specification does not say how large the request for a new chunk is: it is the
  parameter \<open>nextChunkSize\<close>, computed from the adapter's state. The returned slot is the
  buffer handle and the vertex index of the patch's first vertex.
\<close>

definition currChunkFull :: "int \<Rightarrow> GrStrokeGeometry \<Rightarrow> bool" where
  "currChunkFull kNumVerticesPerPatch g \<longleftrightarrow>
     fVertexChunkArray g = [] \<or>
     fCurrChunkVertexCapacity g <
       fVertexCount (last (fVertexChunkArray g)) + kNumVerticesPerPatch"

definition returnUnused :: "GrStrokeGeometry \<Rightarrow> GrStrokeGeometry" where
  "returnUnused g =
     (if fVertexChunkArray g = [] then g
      else g\<lparr>fTarget := putBackVertices
              (fCurrChunkVertexCapacity g - fVertexCount (last (fVertexChunkArray g)))
              sizeof_SkPoint (fTarget g)\<rparr>)"

definition publish :: "int \<Rightarrow> VertexChunk list \<Rightarrow> VertexChunk list" where
  "publish kNumVerticesPerPatch cs =
     butlast cs @ [(last cs)\<lparr>fVertexCount := fVertexCount (last cs) + kNumVerticesPerPatch\<rparr>]"

definition reservePatch ::
  "int \<Rightarrow> (GrStrokeGeometry \<Rightarrow> int) \<Rightarrow> GrStrokeGeometry \<Rightarrow> (nat \<times> int) \<times> GrStrokeGeometry" where
  "reservePatch kNumVerticesPerPatch nextChunkSize g =
     (let g1 = (if currChunkFull kNumVerticesPerPatch g
                then allocVertexChunk (nextChunkSize g) (returnUnused g) else g);
          chunk = last (fVertexChunkArray g1)
      in ((fVertexBuffer chunk, fBaseVertex chunk + fVertexCount chunk),
          g1\<lparr>fVertexChunkArray := publish kNumVerticesPerPatch (fVertexChunkArray g1)\<rparr>))"

text \<open>A conversion run that emits \<open>k\<close> patches reserves \<open>k\<close> patch slots, one after the other.\<close>

fun reservePatches ::
  "int \<Rightarrow> (GrStrokeGeometry \<Rightarrow> int) \<Rightarrow> nat \<Rightarrow> GrStrokeGeometry \<Rightarrow> GrStrokeGeometry" where
  "reservePatches kNumVerticesPerPatch nextChunkSize 0 g = g"
| "reservePatches kNumVerticesPerPatch nextChunkSize (Suc k) g =
     reservePatches kNumVerticesPerPatch nextChunkSize k
       (snd (reservePatch kNumVerticesPerPatch nextChunkSize g))"

section \<open>Quantities the claims speak of\<close>

text \<open>The vertices published in a chunk list: the sum of \<open>fVertexCount\<close> over its chunks.\<close>

definition totalVertexCount :: "VertexChunk list \<Rightarrow> int" where
  "totalVertexCount cs = sum_list (map fVertexCount cs)"

text \<open>The capacity the target granted for the first reservation it received.\<close>

definition initialReservation :: "Target \<Rightarrow> int" where
  "initialReservation t =
     (case reserveLog t of [] \<Rightarrow> 0 | (requested, granted) # _ \<Rightarrow> granted)"

section \<open>Concrete inputs\<close>

text \<open>
  A target that has received no call yet and grants exactly what is asked for (nothing
  for a negative request), the \<open>k\<close>-th reservation in buffer \<open>k\<close> at base vertex 0.
\<close>

definition exactTarget :: "int \<Rightarrow> Target" where
  "exactTarget segments =
     \<lparr>maxTessellationSegments = segments,
      grant = (\<lambda>k n. (k, 0, max n 0)),
      reserveLog = [],
      putBackLog = []\<rparr>"

text \<open>A growth policy: ask for twice the size asked for the current chunk.\<close>

definition doubling :: "GrStrokeGeometry \<Rightarrow> int" where
  "doubling g = 2 * fCurrChunkMinVertexAllocCount g"

text \<open>
  The adapter after a run that stayed within its first chunk: 30 vertices were reserved at
  construction, three patches of five vertices were written.
\<close>

definition oneChunk :: GrStrokeGeometry where
  "oneChunk =
     \<lparr>fMaxTessellationSegments = 64,
      fTarget = (exactTarget 64)\<lparr>reserveLog := [(30, 30)]\<rparr>,
      fVertexChunkArray = [\<lparr>fVertexBuffer = 0, fVertexCount = 15, fBaseVertex = 0\<rparr>],
      fCurrChunkVertexCapacity = 30,
      fCurrChunkMinVertexAllocCount = 30,
      fHasPreviousSegment = False\<rparr>"

text \<open>
  The adapter after a run that outgrew its first chunk: 30 vertices were reserved at
  construction and filled by six patches of five vertices, a second chunk of capacity 60
  holds the seventh patch.
\<close>

definition twoChunks :: GrStrokeGeometry where
  "twoChunks =
     \<lparr>fMaxTessellationSegments = 64,
      fTarget = (exactTarget 64)\<lparr>reserveLog := [(30, 30), (60, 60)], putBackLog := [(0, 8)]\<rparr>,
      fVertexChunkArray =
        [\<lparr>fVertexBuffer = 0, fVertexCount = 30, fBaseVertex = 0\<rparr>,
         \<lparr>fVertexBuffer = 1, fVertexCount = 5, fBaseVertex = 0\<rparr>],
      fCurrChunkVertexCapacity = 60,
      fCurrChunkMinVertexAllocCount = 60,
      fHasPreviousSegment = False\<rparr>"

section \<open>Arithmetic facts\<close>

lemma int32_id: "is_int32 x \<Longrightarrow> int32 x = x"
  by (simp add: int32_def is_int32_def INT_MIN_def INT_MAX_def)

lemma is_int32_int32: "is_int32 (int32 x)"
proof -
  have "0 \<le> (x + 2147483648) mod 4294967296" "(x + 2147483648) mod 4294967296 < 4294967296"
    by simp_all
  then show ?thesis
    by (simp add: int32_def is_int32_def INT_MIN_def INT_MAX_def)
qed

section \<open>What the helper operations change\<close>

lemma allocVertexChunk_chunks:
  "fVertexChunkArray (allocVertexChunk n g) =
     fVertexChunkArray g @
       [\<lparr>fVertexBuffer = fst (grant (fTarget g) (length (reserveLog (fTarget g))) n),
         fVertexCount = 0,
         fBaseVertex = fst (snd (grant (fTarget g) (length (reserveLog (fTarget g))) n))\<rparr>]"
  by (simp add: allocVertexChunk_def reserve_def Let_def split: prod.splits)

lemma allocVertexChunk_capacity:
  "fCurrChunkVertexCapacity (allocVertexChunk n g) =
     snd (snd (grant (fTarget g) (length (reserveLog (fTarget g))) n))"
  by (simp add: allocVertexChunk_def reserve_def Let_def split: prod.splits)

lemma allocVertexChunk_reserveLog:
  "reserveLog (fTarget (allocVertexChunk n g)) =
     reserveLog (fTarget g) @ [(n, snd (snd (grant (fTarget g) (length (reserveLog (fTarget g))) n)))]"
  by (simp add: allocVertexChunk_def reserve_def Let_def split: prod.splits)

lemma returnUnused_chunks: "fVertexChunkArray (returnUnused g) = fVertexChunkArray g"
  by (simp add: returnUnused_def)

lemma ctor_chunks:
  "fVertexChunkArray (GrStrokeGeometry_ctor vpp t cs n) =
     cs @ [\<lparr>fVertexBuffer = fst (grant t (length (reserveLog t)) (int32 (int32 (n * 3) * vpp))),
            fVertexCount = 0,
            fBaseVertex = fst (snd (grant t (length (reserveLog t)) (int32 (int32 (n * 3) * vpp))))\<rparr>]"
  by (simp add: GrStrokeGeometry_ctor_def allocVertexChunk_chunks)

lemma totalVertexCount_snoc:
  "totalVertexCount (cs @ [c]) = totalVertexCount cs + fVertexCount c"
  by (simp add: totalVertexCount_def)

lemma publish_total:
  assumes "cs \<noteq> []"
  shows "totalVertexCount (publish vpp cs) = totalVertexCount cs + vpp"
proof -
  from assms have "totalVertexCount cs = totalVertexCount (butlast cs @ [last cs])"
    by simp
  then have "totalVertexCount cs = totalVertexCount (butlast cs) + fVertexCount (last cs)"
    by (simp only: totalVertexCount_snoc)
  then show ?thesis
    by (simp add: publish_def totalVertexCount_snoc)
qed

lemma reservePatch_total:
  "totalVertexCount (fVertexChunkArray (snd (reservePatch vpp f g))) =
     totalVertexCount (fVertexChunkArray g) + vpp"
  by (simp add: reservePatch_def Let_def publish_total allocVertexChunk_chunks
      returnUnused_chunks totalVertexCount_snoc currChunkFull_def)

lemma reservePatches_total:
  "totalVertexCount (fVertexChunkArray (reservePatches vpp f k g)) =
     totalVertexCount (fVertexChunkArray g) + vpp * int k"
  by (induction k arbitrary: g) (simp_all add: reservePatch_total algebra_simps)

lemma reservePatch_length:
  "length (fVertexChunkArray (snd (reservePatch vpp f g))) =
     (if currChunkFull vpp g then Suc (length (fVertexChunkArray g))
      else length (fVertexChunkArray g))"
  by (simp add: reservePatch_def Let_def publish_def allocVertexChunk_chunks
      returnUnused_chunks currChunkFull_def)

lemma reservePatches_length_mono:
  "length (fVertexChunkArray g) \<le> length (fVertexChunkArray (reservePatches vpp f k g))"
proof (induction k arbitrary: g)
  case 0
  show ?case by simp
next
  case (Suc k)
  have "length (fVertexChunkArray g) \<le> length (fVertexChunkArray (snd (reservePatch vpp f g)))"
    by (simp add: reservePatch_length)
  also have "\<dots> \<le> length (fVertexChunkArray (reservePatches vpp f k (snd (reservePatch vpp f g))))"
    by (rule Suc.IH)
  finally show ?case by simp
qed

lemma reservePatch_fits:
  assumes "\<not> currChunkFull vpp g"
  shows "fCurrChunkVertexCapacity (snd (reservePatch vpp f g)) = fCurrChunkVertexCapacity g"
    and "fVertexCount (last (fVertexChunkArray (snd (reservePatch vpp f g)))) =
           fVertexCount (last (fVertexChunkArray g)) + vpp"
  using assms by (simp_all add: reservePatch_def Let_def publish_def)


text \<open>
  The state \<open>twoChunks\<close> is the one the run of the specification's example reaches: a
  reservation for \<open>totalCombinedVerbCnt = 2\<close> with five vertices per patch, then seven
  patches.
\<close>

lemma twoChunks_reached:
  "reservePatches 5 doubling 7 (GrStrokeGeometry_ctor 5 (exactTarget 64) [] 2) = twoChunks"
  by (simp add: eval_nat_numeral GrStrokeGeometry_ctor_def allocVertexChunk_def reserve_def
      reservePatch_def currChunkFull_def returnUnused_def publish_def putBackVertices_def
      exactTarget_def doubling_def twoChunks_def int32_def sizeof_SkPoint_def Let_def)

lemma oneChunk_reached:
  "reservePatches 5 doubling 3 (GrStrokeGeometry_ctor 5 (exactTarget 64) [] 2) = oneChunk"
  by (simp add: eval_nat_numeral GrStrokeGeometry_ctor_def allocVertexChunk_def reserve_def
      reservePatch_def currChunkFull_def returnUnused_def publish_def putBackVertices_def
      exactTarget_def doubling_def oneChunk_def int32_def sizeof_SkPoint_def Let_def)

section \<open>The states a run reaches\<close>

text \<open>
  A run never removes an entry of the target's reservation log, so the initial
  reservation stays the first entry.
\<close>

lemma returnUnused_reserveLog:
  "reserveLog (fTarget (returnUnused g)) = reserveLog (fTarget g)"
  by (simp add: returnUnused_def putBackVertices_def)

lemma reservePatch_reserveLog:
  "\<exists>ys. reserveLog (fTarget (snd (reservePatch vpp f g))) = reserveLog (fTarget g) @ ys"
  by (simp add: reservePatch_def Let_def allocVertexChunk_reserveLog returnUnused_reserveLog)

lemma reservePatches_reserveLog:
  "\<exists>ys. reserveLog (fTarget (reservePatches vpp f k g)) = reserveLog (fTarget g) @ ys"
proof (induction k arbitrary: g)
  case 0
  show ?case by simp
next
  case (Suc k)
  obtain ys where a: "reserveLog (fTarget (snd (reservePatch vpp f g))) = reserveLog (fTarget g) @ ys"
    using reservePatch_reserveLog by blast
  obtain zs where b: "reserveLog (fTarget (reservePatches vpp f k (snd (reservePatch vpp f g)))) =
      reserveLog (fTarget (snd (reservePatch vpp f g))) @ zs"
    using Suc.IH by blast
  from a b show ?case by simp
qed

lemma initialReservation_extend:
  assumes "reserveLog t' = reserveLog t @ ys" and "reserveLog t \<noteq> []"
  shows "initialReservation t' = initialReservation t"
  using assms by (cases "reserveLog t") (simp_all add: initialReservation_def)

lemma ctor_initialReservation:
  assumes "reserveLog t = []"
  shows "initialReservation (fTarget (GrStrokeGeometry_ctor vpp t cs n)) =
           fCurrChunkVertexCapacity (GrStrokeGeometry_ctor vpp t cs n)"
    and "reserveLog (fTarget (GrStrokeGeometry_ctor vpp t cs n)) \<noteq> []"
  using assms
  by (simp_all add: GrStrokeGeometry_ctor_def allocVertexChunk_reserveLog
      allocVertexChunk_capacity initialReservation_def)

text \<open>As long as no chunk is added, the current capacity is the one the run started with.\<close>

lemma reservePatches_same_capacity:
  assumes "length (fVertexChunkArray (reservePatches vpp f k g)) = length (fVertexChunkArray g)"
  shows "fCurrChunkVertexCapacity (reservePatches vpp f k g) = fCurrChunkVertexCapacity g"
  using assms
proof (induction k arbitrary: g)
  case 0
  then show ?case by simp
next
  case (Suc k)
  let ?g1 = "snd (reservePatch vpp f g)"
  have le1: "length (fVertexChunkArray g) \<le> length (fVertexChunkArray ?g1)"
    by (simp add: reservePatch_length)
  have le2: "length (fVertexChunkArray ?g1) \<le> length (fVertexChunkArray (reservePatches vpp f k ?g1))"
    by (rule reservePatches_length_mono)
  from Suc.prems le1 le2
  have same1: "length (fVertexChunkArray ?g1) = length (fVertexChunkArray g)"
    and same2: "length (fVertexChunkArray (reservePatches vpp f k ?g1)) = length (fVertexChunkArray ?g1)"
    by simp_all
  from same1 have nf: "\<not> currChunkFull vpp g"
    by (simp add: reservePatch_length split: if_splits)
  from Suc.IH [OF same2] show ?case
    by (simp add: reservePatch_fits(1) [OF nf])
qed

text \<open>Patches that fit into the current chunk are written there, and no chunk is added.\<close>

lemma reservePatches_fit:
  assumes "fVertexChunkArray g \<noteq> []" and "0 \<le> vpp"
      and "fVertexCount (last (fVertexChunkArray g)) + vpp * int k \<le> fCurrChunkVertexCapacity g"
  shows "length (fVertexChunkArray (reservePatches vpp f k g)) = length (fVertexChunkArray g)"
  using assms
proof (induction k arbitrary: g)
  case 0
  then show ?case by simp
next
  case (Suc k)
  let ?g1 = "snd (reservePatch vpp f g)"
  have "0 \<le> vpp * int k"
    using Suc.prems(2) by simp
  with Suc.prems(3) have fits: "fVertexCount (last (fVertexChunkArray g)) + vpp \<le> fCurrChunkVertexCapacity g"
    by (simp add: algebra_simps)
  with Suc.prems(1) have nf: "\<not> currChunkFull vpp g"
    by (simp add: currChunkFull_def)
  then have len: "length (fVertexChunkArray ?g1) = length (fVertexChunkArray g)"
    by (simp add: reservePatch_length)
  with Suc.prems(1) have ne: "fVertexChunkArray ?g1 \<noteq> []"
    by (metis length_0_conv)
  from Suc.prems(3)
  have "fVertexCount (last (fVertexChunkArray ?g1)) + vpp * int k \<le> fCurrChunkVertexCapacity ?g1"
    by (simp add: reservePatch_fits [OF nf] algebra_simps)
  from Suc.IH [OF ne Suc.prems(2) this] len show ?case
    by simp
qed

text \<open>
  After construction on a target without earlier reservations and an empty chunk list,
  every run ends in a state of this shape: a sole chunk has the capacity of the initial
  reservation, and a further chunk exists only when more vertices were written than the
  initial reservation granted.
\<close>

lemma run_state_shape:
  assumes "0 \<le> vpp" and "reserveLog t = []"
  shows "(length (fVertexChunkArray (reservePatches vpp f k (GrStrokeGeometry_ctor vpp t [] n))) = 1 \<longrightarrow>
            fCurrChunkVertexCapacity (reservePatches vpp f k (GrStrokeGeometry_ctor vpp t [] n)) =
            initialReservation (fTarget (reservePatches vpp f k (GrStrokeGeometry_ctor vpp t [] n))))
       \<and> (1 < length (fVertexChunkArray (reservePatches vpp f k (GrStrokeGeometry_ctor vpp t [] n))) \<longrightarrow>
            initialReservation (fTarget (reservePatches vpp f k (GrStrokeGeometry_ctor vpp t [] n))) <
            totalVertexCount (fVertexChunkArray (reservePatches vpp f k (GrStrokeGeometry_ctor vpp t [] n))))"
proof -
  define g0 where "g0 = GrStrokeGeometry_ctor vpp t [] n"
  define g where "g = reservePatches vpp f k g0"
  have len0: "length (fVertexChunkArray g0) = 1" and ne0: "fVertexChunkArray g0 \<noteq> []"
    and cnt0: "fVertexCount (last (fVertexChunkArray g0)) = 0"
    by (simp_all add: g0_def ctor_chunks)
  obtain ys where "reserveLog (fTarget g) = reserveLog (fTarget g0) @ ys"
    unfolding g_def using reservePatches_reserveLog by blast
  then have init: "initialReservation (fTarget g) = fCurrChunkVertexCapacity g0"
    using initialReservation_extend ctor_initialReservation [OF assms(2)]
    unfolding g0_def by metis
  have "totalVertexCount (fVertexChunkArray g0) = 0"
    by (simp add: g0_def ctor_chunks totalVertexCount_def)
  then have total: "totalVertexCount (fVertexChunkArray g) = vpp * int k"
    by (simp add: g_def reservePatches_total)
  have one: "fCurrChunkVertexCapacity g = initialReservation (fTarget g)"
    if "length (fVertexChunkArray g) = 1"
    using that reservePatches_same_capacity [of vpp f k g0] len0 init
    by (simp add: g_def)
  have more: "initialReservation (fTarget g) < totalVertexCount (fVertexChunkArray g)"
    if "1 < length (fVertexChunkArray g)"
  proof (rule ccontr)
    assume "\<not> initialReservation (fTarget g) < totalVertexCount (fVertexChunkArray g)"
    with init total cnt0
    have "fVertexCount (last (fVertexChunkArray g0)) + vpp * int k \<le> fCurrChunkVertexCapacity g0"
      by simp
    from reservePatches_fit [OF ne0 assms(1) this] len0 that show False
      by (simp add: g_def)
  qed
  from one more show ?thesis
    unfolding g_def g0_def by blast
qed

section \<open>The constructor's reservation\<close>

text \<open>
  Claim C2, as amended. The constructor calls \<open>allocVertexChunk\<close> with
  \<open>(totalCombinedVerbCnt * 3) * kNumVerticesPerPatch\<close>, computed in \<open>int\<close>. For a
  nonnegative \<open>totalCombinedVerbCnt\<close> whose product with \<open>3 * kNumVerticesPerPatch\<close> fits an
  \<open>int\<close>, the call is made with exactly \<open>(totalCombinedVerbCnt \<times> 3) \<times> kNumVerticesPerPatch\<close>
  vertices, and this is the one reservation the target receives during construction.
\<close>

theorem ctor_initial_reservation:
  assumes "0 \<le> totalCombinedVerbCnt"
      and "0 < kNumVerticesPerPatch"
      and "(totalCombinedVerbCnt * 3) * kNumVerticesPerPatch \<le> INT_MAX"
  shows "GrStrokeGeometry_ctor kNumVerticesPerPatch target cs totalCombinedVerbCnt =
           allocVertexChunk ((totalCombinedVerbCnt * 3) * kNumVerticesPerPatch)
             \<lparr>fMaxTessellationSegments = maxTessellationSegments target,
              fTarget = target,
              fVertexChunkArray = cs,
              fCurrChunkVertexCapacity = 0,
              fCurrChunkMinVertexAllocCount = 0,
              fHasPreviousSegment = False\<rparr>
         \<and> map fst (reserveLog (fTarget
               (GrStrokeGeometry_ctor kNumVerticesPerPatch target cs totalCombinedVerbCnt))) =
             map fst (reserveLog target) @ [(totalCombinedVerbCnt * 3) * kNumVerticesPerPatch]"
proof -
  let ?n = totalCombinedVerbCnt and ?v = kNumVerticesPerPatch
  have "(?n * 3) * 1 \<le> (?n * 3) * ?v"
    using assms(1,2) by (intro mult_left_mono) auto
  then have "?n * 3 \<le> ?n * 3 * ?v"
    by simp
  with assms(1,3) have inner: "is_int32 (?n * 3)"
    unfolding is_int32_def INT_MIN_def by linarith
  have "0 \<le> ?n * 3 * ?v"
    using assms(1,2) by simp
  with assms(3) have outer: "is_int32 (?n * 3 * ?v)"
    unfolding is_int32_def INT_MIN_def by linarith
  from inner outer have req: "int32 (int32 (?n * 3) * ?v) = ?n * 3 * ?v"
    by (simp add: int32_id)
  show ?thesis
    by (simp add: GrStrokeGeometry_ctor_def req allocVertexChunk_reserveLog)
qed

text \<open>
  The amended claim at \<open>totalCombinedVerbCnt = 2\<close> with five vertices per patch: the
  target is asked for 30 vertices.
\<close>

theorem ctor_initial_reservation_witness:
  "(0::int) \<le> 2 \<and> (0::int) < 5 \<and> (2 * 3) * 5 \<le> INT_MAX
   \<and> map fst (reserveLog (fTarget (GrStrokeGeometry_ctor 5 (exactTarget 64) [] 2))) = [30]"
  using ctor_initial_reservation [of 2 5 "exactTarget 64" "[]"]
  by (simp add: INT_MAX_def exactTarget_def allocVertexChunk_reserveLog)

text \<open>
  Claim C2 as stated ("for every nonnegative \<open>totalCombinedVerbCnt\<close>") fails: at
  \<open>totalCombinedVerbCnt = 2\<^sup>3\<^sup>0\<close> the product \<open>totalCombinedVerbCnt * 3\<close> does not
  fit an \<open>int\<close>, and with five vertices per patch the target is asked for \<open>-1073741824\<close>
  vertices, not for \<open>(2\<^sup>3\<^sup>0 \<times> 3) \<times> 5\<close>, which no \<open>int\<close> argument of
  \<open>allocVertexChunk\<close> can be.
\<close>

theorem ctor_initial_reservation_counterexample:
  "map fst (reserveLog (fTarget (GrStrokeGeometry_ctor 5 (exactTarget 64) [] 1073741824))) =
     [- 1073741824]
   \<and> - 1073741824 \<noteq> (1073741824 * 3) * (5::int)
   \<and> \<not> is_int32 ((1073741824 * 3) * 5)"
  by (simp add: GrStrokeGeometry_ctor_def allocVertexChunk_reserveLog exactTarget_def int32_def
      is_int32_def INT_MIN_def INT_MAX_def)

section \<open>What the destructor puts back\<close>

text \<open>
  Claim C1, as amended. When the chunk array is not empty and the last chunk's
  \<open>fVertexCount\<close> lies between 0 and \<open>fCurrChunkVertexCapacity\<close>, the destructor calls
  \<open>putBackVertices\<close> exactly once, with \<open>fCurrChunkVertexCapacity\<close> minus the
  \<open>fVertexCount\<close> of the last chunk (also when that difference is 0), and changes
  nothing else of the target or of the chunk array: it returns the unused capacity of
  the final chunk. Whenever \<open>initialReservation - totalVerticesWritten\<close> is positive, the
  amount put back is that difference, in every state in which a sole chunk has the
  capacity of the initial reservation and a further chunk exists only when more vertices
  were written than the initial reservation granted. When the difference is not positive,
  the destructor still puts back the unused capacity of the final chunk.
\<close>

theorem dtor_puts_back_unused_tail:
  assumes "fVertexChunkArray g \<noteq> []"
      and "0 \<le> fVertexCount (last (fVertexChunkArray g))"
      and "fVertexCount (last (fVertexChunkArray g)) \<le> fCurrChunkVertexCapacity g"
      and "fCurrChunkVertexCapacity g \<le> INT_MAX"
  shows "GrStrokeGeometry_dtor g =
           Some ((fTarget g)\<lparr>putBackLog := putBackLog (fTarget g) @
                   [(fCurrChunkVertexCapacity g - fVertexCount (last (fVertexChunkArray g)),
                     sizeof_SkPoint)]\<rparr>,
                 fVertexChunkArray g)
         \<and> ((length (fVertexChunkArray g) = 1 \<longrightarrow>
                fCurrChunkVertexCapacity g = initialReservation (fTarget g)) \<and>
             (1 < length (fVertexChunkArray g) \<longrightarrow>
                initialReservation (fTarget g) < totalVertexCount (fVertexChunkArray g)) \<and>
             0 < initialReservation (fTarget g) - totalVertexCount (fVertexChunkArray g) \<longrightarrow>
              fCurrChunkVertexCapacity g - fVertexCount (last (fVertexChunkArray g)) =
              initialReservation (fTarget g) - totalVertexCount (fVertexChunkArray g))"
proof -
  let ?unused = "fCurrChunkVertexCapacity g - fVertexCount (last (fVertexChunkArray g))"
  from assms(2-4) have "is_int32 ?unused"
    unfolding is_int32_def INT_MIN_def INT_MAX_def by linarith
  then have "int32 ?unused = ?unused"
    by (rule int32_id)
  with assms(1) have first: "GrStrokeGeometry_dtor g =
      Some ((fTarget g)\<lparr>putBackLog := putBackLog (fTarget g) @ [(?unused, sizeof_SkPoint)]\<rparr>,
            fVertexChunkArray g)"
    by (simp add: GrStrokeGeometry_dtor_def putBackVertices_def)
  have second: "?unused = initialReservation (fTarget g) - totalVertexCount (fVertexChunkArray g)"
    if sole: "length (fVertexChunkArray g) = 1 \<longrightarrow>
                fCurrChunkVertexCapacity g = initialReservation (fTarget g)"
      and grown: "1 < length (fVertexChunkArray g) \<longrightarrow>
                initialReservation (fTarget g) < totalVertexCount (fVertexChunkArray g)"
      and pos: "0 < initialReservation (fTarget g) - totalVertexCount (fVertexChunkArray g)"
  proof -
    from grown pos have "\<not> 1 < length (fVertexChunkArray g)"
      by auto
    with assms(1) have len: "length (fVertexChunkArray g) = 1"
      by (cases "fVertexChunkArray g") auto
    then obtain c where "fVertexChunkArray g = [c]"
      by (cases "fVertexChunkArray g") auto
    then have "totalVertexCount (fVertexChunkArray g) = fVertexCount (last (fVertexChunkArray g))"
      by (simp add: totalVertexCount_def)
    with sole len show ?thesis
      by simp
  qed
  from first second show ?thesis
    by blast
qed

text \<open>
  The amended claim on two adapters with vertices written. In \<open>oneChunk\<close> 15 of the 30
  reserved vertices were written and \<open>initialReservation - totalVerticesWritten = 15\<close> is
  positive: the destructor puts back 15 vertices in one call. In \<open>twoChunks\<close> the
  difference is not positive and the destructor's one call puts back the 55 unused
  vertices of the second chunk.
\<close>

theorem dtor_puts_back_unused_tail_witness:
  "fVertexChunkArray oneChunk \<noteq> []
   \<and> 0 \<le> fVertexCount (last (fVertexChunkArray oneChunk))
   \<and> fVertexCount (last (fVertexChunkArray oneChunk)) \<le> fCurrChunkVertexCapacity oneChunk
   \<and> fCurrChunkVertexCapacity oneChunk \<le> INT_MAX
   \<and> length (fVertexChunkArray oneChunk) = 1
   \<and> fCurrChunkVertexCapacity oneChunk = initialReservation (fTarget oneChunk)
   \<and> 0 < initialReservation (fTarget oneChunk) - totalVertexCount (fVertexChunkArray oneChunk)
   \<and> GrStrokeGeometry_dtor oneChunk =
       Some ((fTarget oneChunk)\<lparr>putBackLog := [(15, 8)]\<rparr>, fVertexChunkArray oneChunk)
   \<and> initialReservation (fTarget oneChunk) - totalVertexCount (fVertexChunkArray oneChunk) = 15
   \<and> fVertexChunkArray twoChunks \<noteq> []
   \<and> 0 \<le> fVertexCount (last (fVertexChunkArray twoChunks))
   \<and> fVertexCount (last (fVertexChunkArray twoChunks)) \<le> fCurrChunkVertexCapacity twoChunks
   \<and> fCurrChunkVertexCapacity twoChunks \<le> INT_MAX
   \<and> 1 < length (fVertexChunkArray twoChunks)
   \<and> initialReservation (fTarget twoChunks) < totalVertexCount (fVertexChunkArray twoChunks)
   \<and> GrStrokeGeometry_dtor twoChunks =
       Some ((fTarget twoChunks)\<lparr>putBackLog := [(0, 8), (55, 8)]\<rparr>, fVertexChunkArray twoChunks)"
  using dtor_puts_back_unused_tail [of oneChunk] dtor_puts_back_unused_tail [of twoChunks]
  by (simp add: oneChunk_def twoChunks_def exactTarget_def INT_MAX_def sizeof_SkPoint_def
      totalVertexCount_def initialReservation_def)

text \<open>
  Claim C1 as stated fails once a second chunk exists. In \<open>twoChunks\<close> the initial
  reservation is 30 vertices and 35 vertices were written, so
  \<open>initialReservation - totalVerticesWritten\<close> is \<open>-5\<close> and is not positive: by the claim
  nothing is left to return. The destructor puts back \<open>60 - 5 = 55\<close> vertices, the unused
  part of the second chunk.
\<close>

theorem dtor_initial_minus_total_counterexample:
  "map_option (last \<circ> putBackLog \<circ> fst) (GrStrokeGeometry_dtor twoChunks) = Some (55, 8)
   \<and> initialReservation (fTarget twoChunks) - totalVertexCount (fVertexChunkArray twoChunks) = - 5"
  by (simp add: GrStrokeGeometry_dtor_def twoChunks_def putBackVertices_def exactTarget_def
      initialReservation_def totalVertexCount_def int32_def sizeof_SkPoint_def)

section \<open>Chunk overflow\<close>



end
